theory Spec2Isabelle
  imports Main
begin

section \<open>The LLDP configuration script \<^verbatim>\<open>src/conf_mode/lldp.py\<close>\<close>

text \<open>
  The script reads the \<^verbatim>\<open>service lldp\<close> subtree of the configuration, validates it,
  renders two files and restarts or stops the daemon. Python strings are modelled as
  \<^typ>\<open>string\<close> (lists of 8-bit characters), \<^verbatim>\<open>None\<close> as \<^term>\<open>None\<close>, a raised exception
  as the left summand of a sum type.
\<close>

subsection \<open>Exceptions\<close>

datatype exn =
    ConfigError string
  | TypeError
  | ValueError
  | KeyError
  | IndexError
  | FileNotFoundError

subsection \<open>Python primitives used by the script\<close>

text \<open>Truth value of an optional string: \<^verbatim>\<open>None\<close> and \<^verbatim>\<open>''\<close> are false.\<close>

definition truthy :: "string option \<Rightarrow> bool" where
  "truthy v = (case v of None \<Rightarrow> False | Some s \<Rightarrow> s \<noteq> [])"

text \<open>The characters below code point 256 for which \<^verbatim>\<open>str.isspace\<close> holds.\<close>

definition is_space :: "char \<Rightarrow> bool" where
  "is_space c = (c \<in> set [CHR 0x09, CHR 0x0A, CHR 0x0B, CHR 0x0C, CHR 0x0D,
                            CHR 0x1C, CHR 0x1D, CHR 0x1E, CHR 0x1F, CHR 0x20,
                            CHR 0x85, CHR 0xA0])"

definition is_digit :: "char \<Rightarrow> bool" where
  "is_digit c = (c \<in> set ''0123456789'')"

definition digit_val :: "char \<Rightarrow> int" where
  "digit_val c = int (of_char c) - 48"

text \<open>
  The white space that \<^verbatim>\<open>int(s)\<close> ignores at both ends of the string: the ASCII
  characters tab, line feed, vertical tab, form feed, carriage return and blank, and
  the two spaces above 127, which it turns into blanks first. The separators
  \<^verbatim>\<open>0x1C\<close> to \<^verbatim>\<open>0x1F\<close> are white space for \<^verbatim>\<open>str.split\<close> only.
\<close>

definition is_int_space :: "char \<Rightarrow> bool" where
  "is_int_space c = (c \<in> set [CHR 0x09, CHR 0x0A, CHR 0x0B, CHR 0x0C, CHR 0x0D, CHR 0x20,
                                CHR 0x85, CHR 0xA0])"

definition int_strip :: "string \<Rightarrow> string" where
  "int_strip s = rev (dropWhile is_int_space (rev (dropWhile is_int_space s)))"

text \<open>
  The digits of a decimal literal as \<^verbatim>\<open>int(s)\<close> reads them: a digit, then digits each
  optionally preceded by one underscore.
\<close>

fun py_digits :: "string \<Rightarrow> int \<Rightarrow> int option" where
  "py_digits [] acc = Some acc"
| "py_digits (c # cs) acc =
     (if is_digit c then py_digits cs (10 * acc + digit_val c)
      else if c = CHR ''_'' then
        (case cs of
           [] \<Rightarrow> None
         | d # ds \<Rightarrow> if is_digit d then py_digits ds (10 * acc + digit_val d) else None)
      else None)"

definition py_unsigned :: "string \<Rightarrow> int option" where
  "py_unsigned s =
     (case s of
        [] \<Rightarrow> None
      | c # cs \<Rightarrow> if is_digit c then py_digits cs (digit_val c) else None)"

text \<open>\<^verbatim>\<open>int(s)\<close> on a string; \<^term>\<open>None\<close> stands for the \<^verbatim>\<open>ValueError\<close> it raises.\<close>

definition py_int :: "string \<Rightarrow> int option" where
  "py_int s =
     (case int_strip s of
        [] \<Rightarrow> None
      | c # cs \<Rightarrow>
          if c = CHR ''-'' then map_option uminus (py_unsigned cs)
          else if c = CHR ''+'' then py_unsigned cs
          else py_unsigned (c # cs))"

text \<open>\<^verbatim>\<open>s.split()\<close>: the maximal runs of non-space characters.\<close>

fun split_acc :: "string \<Rightarrow> string \<Rightarrow> string list" where
  "split_acc [] w = (if w = [] then [] else [w])"
| "split_acc (c # cs) w =
     (if is_space c then (if w = [] then split_acc cs [] else w # split_acc cs [])
      else split_acc cs (w @ [c]))"

definition py_split :: "string \<Rightarrow> string list" where
  "py_split s = split_acc s []"

text \<open>\<^verbatim>\<open>sep.join(xs)\<close>\<close>

fun join :: "string \<Rightarrow> string list \<Rightarrow> string" where
  "join sep [] = []"
| "join sep [x] = x"
| "join sep (x # y # ys) = x @ sep @ join sep (y # ys)"

subsection \<open>Regular expressions\<close>

text \<open>
  The patterns of the script use character classes, concatenation, alternation, the
  option \<^verbatim>\<open>?\<close>, the repetitions \<^verbatim>\<open>+\<close>, \<^verbatim>\<open>{n}\<close> and \<^verbatim>\<open>{m,n}\<close>, and the anchors \<^verbatim>\<open>^\<close> and \<^verbatim>\<open>$\<close>.
  Matching is by derivatives.
\<close>

datatype rx =
    Void
  | Eps
  | Cls "char list"
  | Cat rx rx
  | Alt rx rx
  | Star rx

primrec nullable :: "rx \<Rightarrow> bool" where
  "nullable Void = False"
| "nullable Eps = True"
| "nullable (Cls cs) = False"
| "nullable (Cat r s) = (nullable r \<and> nullable s)"
| "nullable (Alt r s) = (nullable r \<or> nullable s)"
| "nullable (Star r) = True"

primrec deriv :: "char \<Rightarrow> rx \<Rightarrow> rx" where
  "deriv c Void = Void"
| "deriv c Eps = Void"
| "deriv c (Cls cs) = (if c \<in> set cs then Eps else Void)"
| "deriv c (Cat r s) =
     (if nullable r then Alt (Cat (deriv c r) s) (deriv c s) else Cat (deriv c r) s)"
| "deriv c (Alt r s) = Alt (deriv c r) (deriv c s)"
| "deriv c (Star r) = Cat (deriv c r) (Star r)"

primrec matches :: "string \<Rightarrow> rx \<Rightarrow> bool" where
  "matches [] r = nullable r"
| "matches (c # cs) r = matches cs (deriv c r)"

definition Plus :: "rx \<Rightarrow> rx" where
  "Plus r = Cat r (Star r)"

definition Opt :: "rx \<Rightarrow> rx" where
  "Opt r = Alt r Eps"

primrec Lit :: "string \<Rightarrow> rx" where
  "Lit [] = Eps"
| "Lit (c # cs) = Cat (Cls [c]) (Lit cs)"

text \<open>\<^verbatim>\<open>r{n}\<close>\<close>

primrec Rep :: "nat \<Rightarrow> rx \<Rightarrow> rx" where
  "Rep 0 r = Eps"
| "Rep (Suc n) r = Cat r (Rep n r)"

text \<open>\<^verbatim>\<open>r{0,n}\<close>\<close>

primrec Upto :: "nat \<Rightarrow> rx \<Rightarrow> rx" where
  "Upto 0 r = Eps"
| "Upto (Suc n) r = Opt (Cat r (Upto n r))"

text \<open>\<^verbatim>\<open>r{m,n}\<close>\<close>

definition Range :: "nat \<Rightarrow> nat \<Rightarrow> rx \<Rightarrow> rx" where
  "Range m n r = Cat (Rep m r) (Upto (n - m) r)"

text \<open>
  \<^verbatim>\<open>re.match('^' + r + '$', s)\<close> as a truth value. The match starts at the beginning of the
  string; \<^verbatim>\<open>$\<close> holds at the end of the string and also just before a line feed that is
  the last character of the string.
\<close>

definition re_match :: "rx \<Rightarrow> string \<Rightarrow> bool" where
  "re_match r s =
     (matches s r \<or> (s \<noteq> [] \<and> last s = CHR 0x0A \<and> matches (butlast s) r))"

definition digit :: rx where
  "digit = Cls ''0123456789''"

definition alpha :: rx where
  "alpha = Cls (''abcdefghijklmnopqrstuvwxyz'' @ ''ABCDEFGHIJKLMNOPQRSTUVWXYZ'')"

text \<open>\<^verbatim>\<open>^[a-zA-Z]{2}$\<close>\<close>

definition country_code_re :: rx where
  "country_code_re = Rep 2 alpha"

text \<open>\<^verbatim>\<open>^(\d+)(\.\d+)?[nNsS]$\<close>\<close>

definition latitude_re :: rx where
  "latitude_re = Cat (Plus digit) (Cat (Opt (Cat (Cls ''.'') (Plus digit))) (Cls ''nNsS''))"

text \<open>\<^verbatim>\<open>^(\d+)(\.\d+)?[eEwW]$\<close>\<close>

definition longitude_re :: rx where
  "longitude_re = Cat (Plus digit) (Cat (Opt (Cat (Cls ''.'') (Plus digit))) (Cls ''eEwW''))"

text \<open>\<^verbatim>\<open>^[-+0-9\.]+$\<close>\<close>

definition altitude_re :: rx where
  "altitude_re = Plus (Cls ''-+0123456789.'')"

text \<open>\<^verbatim>\<open>^(WGS84|NAD83|MLLW)$\<close>\<close>

definition datum_re :: rx where
  "datum_re = Alt (Lit ''WGS84'') (Alt (Lit ''NAD83'') (Lit ''MLLW''))"

text \<open>\<^verbatim>\<open>^[0-9]{10,25}$\<close>\<close>

definition elin_re :: rx where
  "elin_re = Range 10 25 digit"

subsection \<open>The words matched by a pattern\<close>

definition conc :: "string set \<Rightarrow> string set \<Rightarrow> string set" where
  "conc A B = {u @ v | u v. u \<in> A \<and> v \<in> B}"

inductive_set star :: "string set \<Rightarrow> string set" for A :: "string set" where
  star_empty: "[] \<in> star A"
| star_more: "u \<in> A \<Longrightarrow> v \<in> star A \<Longrightarrow> u @ v \<in> star A"

primrec lang :: "rx \<Rightarrow> string set" where
  "lang Void = {}"
| "lang Eps = {[]}"
| "lang (Cls cs) = {[c] | c. c \<in> set cs}"
| "lang (Cat r s) = conc (lang r) (lang s)"
| "lang (Alt r s) = lang r \<union> lang s"
| "lang (Star r) = star (lang r)"



text \<open>The specification's words for the ELIN: 10 to 25 decimal digits.\<close>

definition digits_10_to_25 :: "string \<Rightarrow> bool" where
  "digits_10_to_25 s = (10 \<le> length s \<and> length s \<le> 25 \<and> list_all is_digit s)"

text \<open>A word, or the word followed by one line feed.\<close>

definition or_line_feed :: "(string \<Rightarrow> bool) \<Rightarrow> string \<Rightarrow> bool" where
  "or_line_feed P s = (P s \<or> (s \<noteq> [] \<and> last s = CHR 0x0A \<and> P (butlast s)))"


subsection \<open>The configuration accessor\<close>

text \<open>
  Modelled from the spec: the class \<^verbatim>\<open>vyos.config.Config\<close> is not part of the source
  file. The specification describes it as a hierarchical store with path-scoped
  existence checks, scalar value retrieval and child-node listing, and a settable
  current scope that is prefixed to every queried path. A path such as
  \<^verbatim>\<open>'service lldp'\<close> is the list of its words.
\<close>

datatype node = Node (vals: "string list") (kids: "(string \<times> node) list")

fun lookup :: "node \<Rightarrow> string list \<Rightarrow> node option" where
  "lookup n [] = Some n"
| "lookup n (p # ps) =
     (case map_of (kids n) p of None \<Rightarrow> None | Some k \<Rightarrow> lookup k ps)"

record config =
  tree :: node
  level :: "string list"

definition set_level :: "string list \<Rightarrow> config \<Rightarrow> config" where
  "set_level p c = c\<lparr>level := p\<rparr>"

definition exists :: "config \<Rightarrow> string list \<Rightarrow> bool" where
  "exists c p = (lookup (tree c) (level c @ p) \<noteq> None)"

definition return_value :: "config \<Rightarrow> string list \<Rightarrow> string option" where
  "return_value c p =
     (case lookup (tree c) (level c @ p) of
        None \<Rightarrow> None
      | Some n \<Rightarrow> (case vals n of [] \<Rightarrow> None | v # _ \<Rightarrow> Some v))"

definition list_nodes :: "config \<Rightarrow> string list \<Rightarrow> string list" where
  "list_nodes c p =
     (case lookup (tree c) (level c @ p) of
        None \<Rightarrow> []
      | Some n \<Rightarrow> map fst (kids n))"

subsection \<open>The service model\<close>

record options_rec =
  listen_vlan :: bool
  addr :: "string option"
  snmp :: bool
  sys_snmp :: "bool option"  \<comment> \<open>the key is set only when \<^verbatim>\<open>snmp\<close> is true\<close>
  cdp :: bool
  edp :: bool
  fdp :: bool
  sonmp :: bool
  description :: string
  listen_on :: "string list"

record intf_rec =
  name :: string
  disable :: bool

record ca_entry =
  ca_name :: string  \<comment> \<open>key \<^verbatim>\<open>'name'\<close>\<close>
  ca_val :: "string option"

text \<open>The dictionary \<^verbatim>\<open>civic_based\<close> is either empty or has both keys.\<close>

record civic =
  country_code :: "string option"
  ca_type :: "ca_entry list"

text \<open>The dictionary \<^verbatim>\<open>coordinate_based\<close> is either empty or has all four keys.\<close>

record coordinate =
  altitude :: "string option"
  latitude :: "string option"
  longitude :: "string option"
  datum :: "string option"

record location_rec =
  loc_name :: string  \<comment> \<open>key \<^verbatim>\<open>'name'\<close>\<close>
  civic_based :: "civic option"  \<comment> \<open>\<^term>\<open>None\<close> is the empty dictionary\<close>
  elin :: "string option"
  coordinate_based :: "coordinate option"  \<comment> \<open>\<^term>\<open>None\<close> is the empty dictionary\<close>

text \<open>\<^verbatim>\<open>get_location_intf\<close> returns the integer 0 or a dictionary.\<close>

datatype loc_entry = LocZero | LocRec location_rec

text \<open>\<^verbatim>\<open>get_location\<close> returns the integer 0 or a list.\<close>

datatype loc_result = RetZero | RetList "loc_entry list"

text \<open>\<^verbatim>\<open>get_interface_list\<close> returns the integer 0 or a list.\<close>

datatype intf_result = IntfZero | IntfList "intf_rec list"

record lldp_rec =
  options :: options_rec
  interface_list :: intf_result
  location :: loc_result

subsection \<open>Extraction\<close>

definition get_options :: "config \<Rightarrow> options_rec \<times> config" where
  "get_options config0 =
     (let config = set_level [''service'', ''lldp''] config0;
          o_listen_vlan = exists config [''listen-vlan''];
          o_addr = return_value config [''management-address''];
          o_snmp = exists config [''snmp'', ''enable''];
          (o_sys_snmp, config) =
            (if o_snmp then
               (let config = set_level [] config;
                    s = exists config [''service'', ''snmp''];
                    config = set_level [''service'', ''lldp''] config
                in (Some s, config))
             else (None, config));
          config = set_level [''service'', ''lldp'', ''legacy-protocols''] config;
          o_cdp = exists config [''cdp''];
          o_edp = exists config [''edp''];
          o_fdp = exists config [''fdp''];
          o_sonmp = exists config [''sonmp'']
      in (\<lparr>listen_vlan = o_listen_vlan, addr = o_addr, snmp = o_snmp,
            sys_snmp = o_sys_snmp, cdp = o_cdp, edp = o_edp, fdp = o_fdp,
            sonmp = o_sonmp, description = ''unknown'', listen_on = []\<rparr>, config))"

fun interface_loop :: "config \<Rightarrow> string list \<Rightarrow> intf_rec list \<times> config" where
  "interface_loop config [] = ([], config)"
| "interface_loop config (n # ns) =
     (let config = set_level [''service'', ''lldp'', ''interface'', n] config;
          d = exists config [''disable''];
          intf = \<lparr>name = n, disable = d\<rparr>;
          (rest, config) = interface_loop config ns
      in (intf # rest, config))"

definition get_interface_list :: "config \<Rightarrow> intf_result \<times> config" where
  "get_interface_list config0 =
     (let config = set_level [''service'', ''lldp''] config0;
          intfs_names = list_nodes config [''interface'']
      in if int (length intfs_names) < 0 then (IntfZero, config)
         else (let (interface_list, config) = interface_loop config intfs_names
               in (IntfList interface_list, config)))"

fun ca_type_loop :: "string list \<Rightarrow> config \<Rightarrow> string list \<Rightarrow> ca_entry list \<times> config" where
  "ca_type_loop path config [] = ([], config)"
| "ca_type_loop path config (ca_types_name # ns) =
     (let config = set_level (path @ [''location'', ''civic-based'', ''ca-type'', ca_types_name]) config;
          v = return_value config [''ca-value''];
          entry = \<lparr>ca_name = ca_types_name, ca_val = v\<rparr>;
          (rest, config) = ca_type_loop path config ns
      in (entry # rest, config))"

definition get_location_intf :: "config \<Rightarrow> string \<Rightarrow> loc_entry \<times> config" where
  "get_location_intf config0 n =
     (let path = [''service'', ''lldp'', ''interface'', n];
          config = set_level path config0
      in if exists config [''location''] then (LocZero, config)
         else
          (let config = set_level (path @ [''location'']) config
           in if exists config [''civic-based''] then
                (let config = set_level (path @ [''location'', ''civic-based'']) config;
                     cc = return_value config [''country-code''];
                     ca_types_names = list_nodes config [''ca-type''];
                     (cas, config) =
                       (if ca_types_names \<noteq> [] then ca_type_loop path config ca_types_names
                        else ([], config))
                 in (LocRec \<lparr>loc_name = n,
                       civic_based = Some \<lparr>country_code = cc, ca_type = cas\<rparr>,
                       elin = None, coordinate_based = None\<rparr>, config))
              else if exists config [''elin''] then
                (LocRec \<lparr>loc_name = n, civic_based = None,
                   elin = return_value config [''elin''], coordinate_based = None\<rparr>, config)
              else if exists config [''coordinate-based''] then
                (let config = set_level (path @ [''location'', ''coordinate-based'']) config
                 in (LocRec \<lparr>loc_name = n, civic_based = None, elin = None,
                       coordinate_based =
                         Some \<lparr>altitude = return_value config [''altitude''],
                               latitude = return_value config [''latitude''],
                               longitude = return_value config [''longitude''],
                               datum = return_value config [''datum'']\<rparr>\<rparr>, config))
              else
                (LocRec \<lparr>loc_name = n, civic_based = None, elin = None,
                   coordinate_based = None\<rparr>, config)))"

fun location_loop :: "config \<Rightarrow> string list \<Rightarrow> loc_entry list \<times> config" where
  "location_loop config [] = ([], config)"
| "location_loop config (n # ns) =
     (let (intf, config) = get_location_intf config n;
          (rest, config) = location_loop config ns
      in (intf # rest, config))"

definition get_location :: "config \<Rightarrow> loc_result \<times> config" where
  "get_location config0 =
     (let config = set_level [''service'', ''lldp''] config0;
          intfs_names = list_nodes config [''interface'']
      in if int (length intfs_names) < 0 then (RetZero, config)
         else if exists config [''disable''] then (RetZero, config)
         else (let (intfs_location, config) = location_loop config intfs_names
               in (RetList intfs_location, config)))"

text \<open>\<^verbatim>\<open>get_config\<close> creates the accessor on the configuration tree, scoped at the root.\<close>

definition get_config :: "node \<Rightarrow> lldp_rec option" where
  "get_config t =
     (let conf = \<lparr>tree = t, level = []\<rparr>
      in if \<not> exists conf [''service'', ''lldp''] then None
         else
          (let (opts, conf) = get_options conf;
               (il, conf) = get_interface_list conf;
               (loc, conf) = get_location conf
           in Some \<lparr>options = opts, interface_list = il, location = loc\<rparr>))"

subsection \<open>Validation\<close>

text \<open>The loop over the ca-type entries of one civic location.\<close>

fun check_ca_types :: "string \<Rightarrow> ca_entry list \<Rightarrow> exn + unit" where
  "check_ca_types n [] = Inr ()"
| "check_ca_types n (ct # cts) =
     (case py_int (ca_name ct) of
        None \<Rightarrow> Inl ValueError
      | Some k \<Rightarrow>
          if \<not> (0 \<le> k \<and> k < 129) then
            Inl (ConfigError (''Invalid location for interface '' @ n @ '':\<newline>'' @
                              ''ca-type must between 0-128''))
          else if \<not> truthy (ca_val ct) then
            Inl (ConfigError (''Invalid location for interface '' @ n @ '':\<newline>'' @
                              ''must configure the ca-value for ca-type '' @ ca_name ct))
          else check_ca_types n cts)"

text \<open>
  The body of the loop over the locations. Subscripting the integer 0 raises
  \<^verbatim>\<open>TypeError\<close>. Every \<^term>\<open>the\<close> below is applied to a value just tested with
  \<^term>\<open>truthy\<close>.
\<close>

definition verify_location :: "loc_entry \<Rightarrow> exn + unit" where
  "verify_location entry =
     (case entry of
        LocZero \<Rightarrow> Inl TypeError
      | LocRec l \<Rightarrow>
         (case civic_based l of
            Some c \<Rightarrow>
              if coordinate_based l \<noteq> None \<or> truthy (elin l) then
                Inl (ConfigError (''Can only configure 1 location type for interface '' @ loc_name l))
              else if \<not> truthy (country_code c) then
                Inl (ConfigError (''Invalid location for interface '' @ loc_name l @ '':\<newline>'' @
                                  ''must configure the country code''))
              else if \<not> re_match country_code_re (the (country_code c)) then
                Inl (ConfigError (''Invalid location for interface '' @ loc_name l @ '':\<newline>'' @
                                  ''country-code must be 2 characters''))
              else if int (length (ca_type c)) < 0 then
                Inl (ConfigError (''Invalid location for interface '' @ loc_name l @ '':\<newline>'' @
                                  ''must define at least 1 ca-type''))
              else check_ca_types (loc_name l) (ca_type c)
          | None \<Rightarrow>
             (case coordinate_based l of
                Some co \<Rightarrow>
                  if \<not> truthy (longitude co) then
                    Inl (ConfigError (''Must define longitude for interface '' @ loc_name l))
                  else if \<not> truthy (latitude co) then
                    Inl (ConfigError (''Must define latitude for interface '' @ loc_name l))
                  else if \<not> re_match latitude_re (the (latitude co)) then
                    Inl (ConfigError (''Invalid location for interface '' @ loc_name l @ '':\<newline>'' @
                                      ''latitude should be a number followed by S or N''))
                  else if \<not> re_match longitude_re (the (longitude co)) then
                    Inl (ConfigError (''Invalid location for interface '' @ loc_name l @ '':\<newline>'' @
                                      ''longitude should be a number followed by E or W''))
                  else if truthy (altitude co) \<and> \<not> re_match altitude_re (the (altitude co)) then
                    Inl (ConfigError (''Invalid location for interface '' @ loc_name l @ '':\<newline>'' @
                                      ''altitude should be a positive or negative number''))
                  else if truthy (datum co) \<and> \<not> re_match datum_re (the (datum co)) then
                    Inl (ConfigError (''Invalid location for interface '' @ loc_name l @
                                      '':\<newline>'' @ [CHR 0x27, CHR 0x20] @ replicate 38 (CHR 0x20) @
                                      [CHR 0x27] @ ''datum should be WGS84, NAD83, or MLLW''))
                  else Inr ()
              | None \<Rightarrow>
                  if truthy (elin l) then
                    (if \<not> re_match elin_re (the (elin l)) then
                       Inl (ConfigError (''Invalid location for interface '' @ loc_name l @
                                         '':\<newline>'' @ ''ELIN number must be between 10-25 numbers''))
                     else Inr ())
                  else Inr ())))"

fun verify_locations :: "loc_entry list \<Rightarrow> exn + unit" where
  "verify_locations [] = Inr ()"
| "verify_locations (entry # rest) =
     (case verify_location entry of
        Inl e \<Rightarrow> Inl e
      | Inr _ \<Rightarrow> verify_locations rest)"

text \<open>
  Iterating over the integer 0 raises \<^verbatim>\<open>TypeError\<close>; reading a missing key of the
  options raises \<^verbatim>\<open>KeyError\<close>.
\<close>

definition verify :: "lldp_rec option \<Rightarrow> exn + unit" where
  "verify lldp_opt =
     (case lldp_opt of
        None \<Rightarrow> Inr ()
      | Some lldp \<Rightarrow>
         (case location lldp of
            RetZero \<Rightarrow> Inl TypeError
          | RetList ls \<Rightarrow>
             (case verify_locations ls of
                Inl e \<Rightarrow> Inl e
              | Inr _ \<Rightarrow>
                  if snmp (options lldp) then
                    (case sys_snmp (options lldp) of
                       None \<Rightarrow> Inl KeyError
                     | Some b \<Rightarrow>
                         if \<not> b then
                           Inl (ConfigError ''SNMP must be configured to enable LLDP SNMP'')
                         else Inr ())
                  else Inr ())))"

subsection \<open>Templates\<close>

text \<open>
  A template is a sequence of literal text, conditional blocks
  \<^verbatim>\<open>{% if v %} ... {% endif %}\<close> and printed expressions \<^verbatim>\<open>{{ e }}\<close>, each reading the
  options dictionary that \<^verbatim>\<open>render\<close> receives.
\<close>

datatype piece =
    Text string
  | If "options_rec \<Rightarrow> bool" "piece list"
  | Print "options_rec \<Rightarrow> string"

fun render :: "piece list \<Rightarrow> options_rec \<Rightarrow> string" where
  "render [] opts = []"
| "render (Text t # ps) opts = t @ render ps opts"
| "render (If c body # ps) opts = (if c opts then render body opts else []) @ render ps opts"
| "render (Print f # ps) opts = f opts @ render ps opts"

text \<open>
  \<^verbatim>\<open>jinja2.Template(source)\<close> with the default environment removes one trailing line
  feed from the source.
\<close>

definition Template :: "piece list \<Rightarrow> piece list" where
  "Template ps =
     (case rev ps of
        Text t # before \<Rightarrow>
          if t \<noteq> [] \<and> last t = CHR 0x0A then rev (Text (butlast t) # before) else ps
      | _ \<Rightarrow> ps)"

text \<open>Printing \<^verbatim>\<open>None\<close> gives the text \<^verbatim>\<open>None\<close>.\<close>

definition str_opt :: "string option \<Rightarrow> string" where
  "str_opt v = (case v of None \<Rightarrow> ''None'' | Some s \<Rightarrow> s)"

definition config_file :: string where
  "config_file = ''/etc/default/lldpd''"

definition lldp_tmpl :: "piece list" where
  \<open>lldp_tmpl =
     [Text ''\<newline>### Autogenerated by lldp.py ###\<newline>DAEMON_ARGS="-M4'',
      If snmp [Text '' -x''],
      If (\<lambda>opts. truthy (addr opts)) [Text '' -m '', Print (\<lambda>opts. str_opt (addr opts))],
      If cdp [Text '' -c''],
      If edp [Text '' -e''],
      If fdp [Text '' -f''],
      If sonmp [Text '' -s''],
      Text ''"\<newline>\<newline>'']\<close>

definition vyos_config_file :: string where
  "vyos_config_file = ''/etc/lldpd.d/01-vyos.conf''"

definition vyos_tmpl :: "piece list" where
  \<open>vyos_tmpl =
     [Text (''\<newline>### Autogenerated by lldp.py ###\<newline>\<newline>'' @
            ''configure system platform VyOS\<newline>'' @
            ''configure system description "VyOS ''),
      Print description,
      Text ''"\<newline>'',
      If (\<lambda>opts. listen_on opts \<noteq> [])
        [Text ''\<newline>configure system interface pattern "'',
         Print (\<lambda>opts. join '','' (listen_on opts)),
         Text ''"\<newline>''],
      Text ''\<newline>\<newline>'']\<close>

subsection \<open>Generation and application\<close>

text \<open>
  The part of the system the script acts on: the files by path, the commands passed
  to \<^verbatim>\<open>os.system\<close> and the lines printed, both in order. Opening a file for writing
  is taken to succeed.
\<close>

record world =
  files :: "string \<rightharpoonup> string"
  cmds :: "string list"
  stdout :: "string list"

fun listen_on_loop :: "string list \<Rightarrow> intf_rec list \<Rightarrow> string list" where
  "listen_on_loop acc [] = acc"
| "listen_on_loop acc (intf # rest) =
     (let tmp = [];
          tmp = (if disable intf then ''!'' else tmp);
          tmp = tmp @ name intf
      in listen_on_loop (acc @ [tmp]) rest)"

text \<open>
  \<^verbatim>\<open>generate\<close> changes the dictionary it is given; the result carries the dictionary
  as the caller sees it afterwards.
\<close>

definition generate :: "lldp_rec option \<Rightarrow> world \<Rightarrow> (exn + lldp_rec option) \<times> world" where
  "generate lldp_opt w =
     (case lldp_opt of
        None \<Rightarrow> (Inr None, w)
      | Some lldp \<Rightarrow>
         (case files w ''/opt/vyatta/etc/version'' of
            None \<Rightarrow> (Inl FileNotFoundError, w)
          | Some tmp \<Rightarrow>
              if length (py_split tmp) < 2 then (Inl IndexError, w)
              else
               (let opts = (options lldp)\<lparr>description := py_split tmp ! 1\<rparr>
                in case interface_list lldp of
                     IntfZero \<Rightarrow> (Inl TypeError, w)
                   | IntfList il \<Rightarrow>
                      (let opts = opts\<lparr>listen_on := listen_on_loop (listen_on opts) il\<rparr>;
                           config_text = render (Template lldp_tmpl) opts;
                           w = w\<lparr>files := (files w)(config_file \<mapsto> config_text)\<rparr>;
                           config_text = render (Template vyos_tmpl) opts;
                           w = w\<lparr>files := (files w)(vyos_config_file \<mapsto> config_text)\<rparr>
                       in (Inr (Some (lldp\<lparr>options := opts\<rparr>)), w)))))"

text \<open>\<^verbatim>\<open>apply\<close>; a dictionary with keys is true. \<^verbatim>\<open>os.unlink\<close> of a missing file raises.\<close>

definition apply_lldp :: "lldp_rec option \<Rightarrow> world \<Rightarrow> (exn + unit) \<times> world" where
  "apply_lldp lldp_opt w =
     (case lldp_opt of
        Some lldp \<Rightarrow> (Inr (), w\<lparr>cmds := cmds w @ [''sudo systemctl restart lldpd.service'']\<rparr>)
      | None \<Rightarrow>
         (let w = w\<lparr>cmds := cmds w @ [''sudo systemctl stop lldpd.service'']\<rparr>
          in case files w config_file of
               None \<Rightarrow> (Inl FileNotFoundError, w)
             | Some _ \<Rightarrow> (Inr (), w\<lparr>files := (files w)(config_file := None)\<rparr>)))"

subsection \<open>The top-level invocation\<close>

datatype outcome = Finished | Exit int | Uncaught exn

text \<open>The handler of the \<^verbatim>\<open>try\<close> statement: only \<^verbatim>\<open>ConfigError\<close> is caught.\<close>

definition handler :: "exn \<Rightarrow> world \<Rightarrow> outcome \<times> world" where
  "handler e w =
     (case e of
        ConfigError m \<Rightarrow> (Exit 1, w\<lparr>stdout := stdout w @ [m]\<rparr>)
      | _ \<Rightarrow> (Uncaught e, w))"

definition main :: "node \<Rightarrow> world \<Rightarrow> outcome \<times> world" where
  "main t w =
     (let c = get_config t
      in case verify c of
           Inl e \<Rightarrow> handler e w
         | Inr _ \<Rightarrow>
            (case generate c w of
               (Inl e, w) \<Rightarrow> handler e w
             | (Inr c, w) \<Rightarrow>
                (case apply_lldp c w of
                   (Inl e, w) \<Rightarrow> handler e w
                 | (Inr _, w) \<Rightarrow> (Finished, w))))"

subsection \<open>Example configurations and models\<close>

text \<open>The root of a configuration holding the given children of \<^verbatim>\<open>service lldp\<close>.\<close>

definition lldp_tree :: "(string \<times> node) list \<Rightarrow> node" where
  "lldp_tree ks = Node [] [(''service'', Node [] [(''lldp'', Node [] ks)])]"

text \<open>
  \<^verbatim>\<open>eth0\<close> with an ELIN location, \<^verbatim>\<open>eth1\<close> without a location.
\<close>

definition tree_elin :: node where
  "tree_elin =
     lldp_tree
       [(''interface'', Node []
          [(''eth0'', Node [] [(''location'', Node [] [(''elin'', Node [''0123456789''] [])])]),
           (''eth1'', Node [] [])])]"

text \<open>The service is disabled as a whole; one interface is declared.\<close>

definition tree_disable :: node where
  "tree_disable =
     lldp_tree [(''disable'', Node [] []), (''interface'', Node [] [(''eth0'', Node [] [])])]"

text \<open>LLDP SNMP is enabled while \<^verbatim>\<open>service snmp\<close> is absent.\<close>

definition tree_snmp :: node where
  "tree_snmp =
     lldp_tree
       [(''snmp'', Node [] [(''enable'', Node [] [])]),
        (''interface'', Node [] [(''eth0'', Node [] [])])]"

text \<open>The options of a service with nothing but interfaces configured.\<close>

definition plain_options :: options_rec where
  "plain_options =
     \<lparr>listen_vlan = False, addr = None, snmp = False, sys_snmp = None, cdp = False,
      edp = False, fdp = False, sonmp = False, description = ''unknown'', listen_on = []\<rparr>"

definition model_of :: "loc_entry list \<Rightarrow> lldp_rec" where
  "model_of ls = \<lparr>options = plain_options, interface_list = IntfList [], location = RetList ls\<rparr>"

text \<open>A civic location with a country code and no ca-type at all.\<close>

definition civic_no_ca_type :: loc_entry where
  "civic_no_ca_type =
     LocRec \<lparr>loc_name = ''eth0'',
             civic_based = Some \<lparr>country_code = Some ''US'', ca_type = []\<rparr>,
             elin = None, coordinate_based = None\<rparr>"

text \<open>One enabled interface \<^verbatim>\<open>eth0\<close> and one disabled interface \<^verbatim>\<open>eth1\<close>.\<close>

definition two_intfs :: intf_result where
  "two_intfs = IntfList [\<lparr>name = ''eth0'', disable = False\<rparr>, \<lparr>name = ''eth1'', disable = True\<rparr>]"

definition model_two_intfs :: lldp_rec where
  "model_two_intfs = \<lparr>options = plain_options, interface_list = two_intfs, location = RetList []\<rparr>"

text \<open>A system with a version file and both generated files already present.\<close>

definition world0 :: world where
  "world0 =
     \<lparr>files = [''/opt/vyatta/etc/version'' \<mapsto> ''Version: 1.2.0'',
               config_file \<mapsto> ''old arguments'',
               vyos_config_file \<mapsto> ''old configuration''],
      cmds = [], stdout = []\<rparr>"

text \<open>LLDP SNMP is enabled and the model has the given locations.\<close>

definition model_snmp_with :: "bool \<Rightarrow> loc_entry list \<Rightarrow> lldp_rec" where
  "model_snmp_with b ls =
     (model_of ls)\<lparr>options := plain_options\<lparr>snmp := True, sys_snmp := Some b\<rparr>\<rparr>"

text \<open>An ELIN location with the given value.\<close>

definition loc_elin :: "string \<Rightarrow> loc_entry" where
  "loc_elin e =
     LocRec \<lparr>loc_name = ''eth0'', civic_based = None, elin = Some e, coordinate_based = None\<rparr>"

text \<open>A civic location with ca-type entries of the given identifiers, each with a value.\<close>

definition model_cas :: "string list \<Rightarrow> lldp_rec" where
  "model_cas ns =
     model_of
       [LocRec \<lparr>loc_name = ''eth0'',
                civic_based =
                  Some \<lparr>country_code = Some ''US'',
                        ca_type = map (\<lambda>n. \<lparr>ca_name = n, ca_val = Some ''Main Street''\<rparr>) ns\<rparr>,
                elin = None, coordinate_based = None\<rparr>]"

text \<open>A civic location with one ca-type entry of the given identifier.\<close>

definition model_ca :: "string \<Rightarrow> lldp_rec" where
  "model_ca n =
     model_of
       [LocRec \<lparr>loc_name = ''eth0'',
                civic_based = Some \<lparr>country_code = Some ''US'',
                                     ca_type = [\<lparr>ca_name = n, ca_val = Some ''Main Street''\<rparr>]\<rparr>,
                elin = None, coordinate_based = None\<rparr>]"

text \<open>One ELIN location; one coordinate location with latitude and longitude only.\<close>

definition model_elin :: "string \<Rightarrow> lldp_rec" where
  "model_elin e =
     model_of [LocRec \<lparr>loc_name = ''eth0'', civic_based = None, elin = Some e,
                       coordinate_based = None\<rparr>]"




section \<open>Properties\<close>

subsection \<open>The configuration accessor\<close>

lemma lookup_append:
  "lookup n (p @ q) = (case lookup n p of None \<Rightarrow> None | Some k \<Rightarrow> lookup k q)"
  by (induction n p rule: lookup.induct) (auto split: option.splits)

subsection \<open>Location extraction\<close>

text \<open>
  What \<^verbatim>\<open>get_location_intf\<close> returns for an interface with a location subtree and for
  one without, and the number of entries of the list.
\<close>

lemma get_location_intf_present:
  "lookup (tree c) [''service'', ''lldp'', ''interface'', n, ''location''] \<noteq> None \<Longrightarrow>
     fst (get_location_intf c n) = LocZero"
  by (simp add: get_location_intf_def Let_def set_level_def exists_def)

lemma get_location_intf_absent:
  assumes "lookup (tree c) [''service'', ''lldp'', ''interface'', n, ''location''] = None"
  shows "fst (get_location_intf c n) =
     LocRec \<lparr>loc_name = n, civic_based = None, elin = None, coordinate_based = None\<rparr>"
proof -
  have "lookup (tree c) ([''service'', ''lldp'', ''interface'', n, ''location''] @ [k]) = None" for k
    unfolding lookup_append using assms by simp
  then show ?thesis
    using assms by (simp add: get_location_intf_def Let_def set_level_def exists_def)
qed

lemma location_loop_length: "length (fst (location_loop c ns)) = length ns"
  by (induction ns arbitrary: c) (simp_all add: case_prod_beta)

text \<open>
  C1. The specification says that an interface without a location subtree gets no
  record in the location list and that an interface with one gets a record. On a
  configuration where \<^verbatim>\<open>eth0\<close> has an ELIN location and \<^verbatim>\<open>eth1\<close> has no location, the
  extractor returns a list of two entries: the integer 0 for \<^verbatim>\<open>eth0\<close>, whose location
  is never read, and a record with all three location fields empty for \<^verbatim>\<open>eth1\<close>. The
  test \<^verbatim>\<open>if config.exists('location')\<close> in \<^verbatim>\<open>get_location_intf\<close> is the negation of the
  one the rest of the function needs.
\<close>

theorem get_location_inverted_test:
  "fst (get_location \<lparr>tree = tree_elin, level = []\<rparr>) =
     RetList [LocZero,
              LocRec \<lparr>loc_name = ''eth1'', civic_based = None, elin = None, coordinate_based = None\<rparr>]"
  by (simp add: get_location_def get_location_intf_def tree_elin_def lldp_tree_def set_level_def
        exists_def list_nodes_def return_value_def Let_def)

subsection \<open>Validation of civic locations\<close>

text \<open>
  C2. The specification says that a civic location with an empty ca-type list is
  rejected with the message \<^verbatim>\<open>must define at least 1 ca-type\<close>. The check compares the
  length of the list with \<^verbatim>\<open>< 0\<close>, which no length satisfies: a civic location with a
  valid country code and no ca-type passes validation.
\<close>

theorem empty_ca_type_list_passes:
  "verify (Some (model_of [civic_no_ca_type])) = Inr ()"
  by (simp add: verify_def model_of_def civic_no_ca_type_def verify_location_def plain_options_def
        truthy_def re_match_def country_code_re_def alpha_def eval_nat_numeral)

subsection \<open>The top-level invocation\<close>

text \<open>
  C4. Whenever \<^verbatim>\<open>verify\<close> raises a configuration error on the model read from the
  configuration, the invocation prints the message and exits with status 1; no file
  is written or removed and no service command is issued.
\<close>

theorem main_config_error:
  "verify (get_config t) = Inl (ConfigError m) \<Longrightarrow>
     main t w = (Exit 1, w\<lparr>stdout := stdout w @ [m]\<rparr>) \<and>
     files (snd (main t w)) = files w \<and> cmds (snd (main t w)) = cmds w"
  by (simp add: main_def handler_def Let_def)

lemma verify_tree_snmp:
  "verify (get_config tree_snmp) = Inl (ConfigError ''SNMP must be configured to enable LLDP SNMP'')"
  by (simp add: get_config_def get_options_def get_interface_list_def get_location_def
        get_location_intf_def tree_snmp_def lldp_tree_def set_level_def exists_def list_nodes_def
        return_value_def Let_def verify_def verify_location_def truthy_def)

theorem main_config_error_witness:
  "verify (get_config tree_snmp) = Inl (ConfigError ''SNMP must be configured to enable LLDP SNMP'') \<and>
   main tree_snmp world0 =
     (Exit 1, world0\<lparr>stdout := stdout world0 @ [''SNMP must be configured to enable LLDP SNMP'']\<rparr>) \<and>
   files (snd (main tree_snmp world0)) = files world0 \<and>
   cmds (snd (main tree_snmp world0)) = cmds world0"
  using main_config_error [OF verify_tree_snmp, of world0] verify_tree_snmp by simp

subsection \<open>The absent service\<close>

text \<open>
  C9. The model is null exactly when the subtree \<^verbatim>\<open>service lldp\<close> is absent. On the
  null model \<^verbatim>\<open>verify\<close> returns, \<^verbatim>\<open>generate\<close> returns without changing the files, the
  commands or the model, and \<^verbatim>\<open>apply\<close> issues the stop command and leaves the
  launch-argument file absent and every other file, the daemon configuration file
  among them, as it was. \<^verbatim>\<open>apply\<close> returns normally when the launch-argument file
  existed and raises \<^verbatim>\<open>FileNotFoundError\<close>, after the stop command, when it did not.
\<close>

theorem null_model_effects:
  "(get_config t = None) = (lookup t [''service'', ''lldp''] = None) \<and>
   verify None = Inr () \<and>
   generate None w = (Inr None, w) \<and>
   snd (apply_lldp None w) =
     w\<lparr>cmds := cmds w @ [''sudo systemctl stop lldpd.service''],
       files := (files w)(config_file := None)\<rparr> \<and>
   files (snd (apply_lldp None w)) vyos_config_file = files w vyos_config_file \<and>
   fst (apply_lldp None w) =
     (case files w config_file of None \<Rightarrow> Inl FileNotFoundError | Some _ \<Rightarrow> Inr ())"
proof -
  have a: "(get_config t = None) = (lookup t [''service'', ''lldp''] = None)"
    by (simp add: get_config_def exists_def Let_def split: prod.splits)
  have b: "verify None = Inr ()" "generate None w = (Inr None, w)"
    by (simp_all add: verify_def generate_def)
  have c: "snd (apply_lldp None w) =
     w\<lparr>cmds := cmds w @ [''sudo systemctl stop lldpd.service''],
       files := (files w)(config_file := None)\<rparr>"
    by (cases "files w config_file") (simp_all add: apply_lldp_def Let_def fun_upd_idem)
  have d: "files (snd (apply_lldp None w)) vyos_config_file = files w vyos_config_file"
    unfolding c by (simp add: config_file_def vyos_config_file_def)
  have e: "fst (apply_lldp None w) =
     (case files w config_file of None \<Rightarrow> Inl FileNotFoundError | Some _ \<Rightarrow> Inr ())"
    by (simp add: apply_lldp_def Let_def split: option.splits)
  from a b c d e show ?thesis by blast
qed

subsection \<open>The extractors only read the configuration\<close>

lemma get_options_tree: "tree (snd (get_options c)) = tree c"
  by (simp add: get_options_def Let_def set_level_def case_prod_beta)

lemma interface_loop_tree: "tree (snd (interface_loop c ns)) = tree c"
  by (induction ns arbitrary: c) (simp_all add: Let_def set_level_def case_prod_beta)

lemma get_interface_list_tree: "tree (snd (get_interface_list c)) = tree c"
  by (simp add: get_interface_list_def Let_def set_level_def case_prod_beta interface_loop_tree)

lemma get_options_sys_snmp:
  "sys_snmp (fst (get_options c)) =
     (if snmp (fst (get_options c)) then Some (lookup (tree c) [''service'', ''snmp''] \<noteq> None)
      else None)"
  by (simp add: get_options_def Let_def set_level_def exists_def case_prod_beta)

subsection \<open>The disabled service\<close>

text \<open>
  C10. In every configuration where \<^verbatim>\<open>service lldp\<close> has a child \<^verbatim>\<open>disable\<close> (so the
  service subtree exists), \<^verbatim>\<open>get_location\<close> returns the integer 0, the model is not
  null and holds that 0 as its location, and \<^verbatim>\<open>verify\<close> raises \<^verbatim>\<open>TypeError\<close>, which
  is not a configuration error. Such a configuration exists.
\<close>

theorem disable_node_type_error:
  "lookup t [''service'', ''lldp'', ''disable''] \<noteq> None \<Longrightarrow>
     lookup t [''service'', ''lldp''] \<noteq> None \<and>
     fst (get_location \<lparr>tree = t, level = lv\<rparr>) = RetZero \<and>
     (\<exists>lldp. get_config t = Some lldp \<and> location lldp = RetZero) \<and>
     verify (get_config t) = Inl TypeError"
proof -
  assume h: "lookup t [''service'', ''lldp'', ''disable''] \<noteq> None"
  then have s: "lookup t [''service'', ''lldp''] \<noteq> None"
    by (auto split: option.splits)
  have l: "fst (get_location \<lparr>tree = t, level = lv\<rparr>) = RetZero"
    using h by (simp add: get_location_def Let_def exists_def set_level_def)
  have g: "\<exists>lldp. get_config t = Some lldp \<and> location lldp = RetZero"
    using s h
    by (simp add: get_config_def Let_def exists_def get_location_def set_level_def
          case_prod_beta get_options_tree get_interface_list_tree)
  then have "verify (get_config t) = Inl TypeError"
    by (auto simp add: verify_def)
  with s l g show ?thesis by blast
qed

theorem disable_node_type_error_witness:
  "lookup tree_disable [''service'', ''lldp'', ''disable''] \<noteq> None \<and>
   fst (get_location \<lparr>tree = tree_disable, level = []\<rparr>) = RetZero \<and>
   (\<exists>lldp. get_config tree_disable = Some lldp \<and> location lldp = RetZero) \<and>
   verify (get_config tree_disable) = Inl TypeError"
proof -
  have h: "lookup tree_disable [''service'', ''lldp'', ''disable''] \<noteq> None"
    by (simp add: tree_disable_def lldp_tree_def)
  from disable_node_type_error [OF h, of "[]"] h show ?thesis by blast
qed

subsection \<open>The SNMP rule\<close>

lemma check_ca_types_not_snmp:
  "check_ca_types n cs = Inl (ConfigError m) \<Longrightarrow>
     m \<noteq> ''SNMP must be configured to enable LLDP SNMP''"
  by (induction cs) (auto split: option.splits if_splits)

lemma verify_location_not_snmp:
  "verify_location a = Inl (ConfigError m) \<Longrightarrow>
     m \<noteq> ''SNMP must be configured to enable LLDP SNMP''"
  using check_ca_types_not_snmp
  by (auto simp add: verify_location_def split: loc_entry.splits option.splits if_splits)

lemma verify_locations_not_snmp:
  "verify_locations ls = Inl (ConfigError m) \<Longrightarrow>
     m \<noteq> ''SNMP must be configured to enable LLDP SNMP''"
  using verify_location_not_snmp by (induction ls) (auto split: sum.splits)

text \<open>The SNMP message comes from the SNMP rule only.\<close>

lemma verify_snmp_only_if:
  "verify (Some lldp) = Inl (ConfigError ''SNMP must be configured to enable LLDP SNMP'') \<Longrightarrow>
     snmp (options lldp) \<and> sys_snmp (options lldp) = Some False"
  using verify_locations_not_snmp
  by (auto simp add: verify_def split: loc_result.splits sum.splits option.splits if_splits)

text \<open>
  C5, as stated, fails: the SNMP rule is checked after the locations. With \<^verbatim>\<open>snmp\<close> true
  and \<^verbatim>\<open>sys_snmp\<close> false, a model whose only location is an ELIN location with the value
  \<^verbatim>\<open>1\<close> makes \<^verbatim>\<open>verify\<close> raise the ELIN error, not the SNMP error.
\<close>

theorem snmp_rule_after_locations:
  "snmp (options (model_snmp_with False [loc_elin ''1''])) \<and>
   sys_snmp (options (model_snmp_with False [loc_elin ''1''])) = Some False \<and>
   verify (Some (model_snmp_with False [loc_elin ''1''])) =
     Inl (ConfigError (''Invalid location for interface eth0:\<newline>'' @
                       ''ELIN number must be between 10-25 numbers'')) \<and>
   verify (Some (model_snmp_with False [loc_elin ''1''])) \<noteq>
     Inl (ConfigError ''SNMP must be configured to enable LLDP SNMP'')"
  by (simp add: model_snmp_with_def model_of_def plain_options_def loc_elin_def verify_def
        verify_location_def truthy_def re_match_def elin_re_def Range_def digit_def Opt_def
        eval_nat_numeral)

lemma verify_locations_elin_ok: "verify_locations [loc_elin ''0123456789''] = Inr ()"
  by (simp add: loc_elin_def verify_location_def truthy_def re_match_def elin_re_def Range_def
        digit_def Opt_def eval_nat_numeral)

text \<open>
  C5, amended. \<^verbatim>\<open>verify\<close> raises the configuration error
  \<^verbatim>\<open>SNMP must be configured to enable LLDP SNMP\<close> if and only if the location value of the
  model is a list whose entries all pass their checks and the options have \<^verbatim>\<open>snmp\<close> true
  and \<^verbatim>\<open>sys_snmp\<close> false. A model with no failing location passes validation when \<^verbatim>\<open>snmp\<close>
  and \<^verbatim>\<open>sys_snmp\<close> are both true, and when \<^verbatim>\<open>snmp\<close> is false.
\<close>

theorem verify_snmp_rule:
  "((verify (Some lldp) = Inl (ConfigError ''SNMP must be configured to enable LLDP SNMP'')) =
      ((\<exists>ls. location lldp = RetList ls \<and> verify_locations ls = Inr ()) \<and>
       snmp (options lldp) \<and> sys_snmp (options lldp) = Some False)) \<and>
   ((\<exists>ls. location lldp = RetList ls \<and> verify_locations ls = Inr ()) \<and>
    snmp (options lldp) \<and> sys_snmp (options lldp) = Some True \<longrightarrow> verify (Some lldp) = Inr ()) \<and>
   ((\<exists>ls. location lldp = RetList ls \<and> verify_locations ls = Inr ()) \<and>
    \<not> snmp (options lldp) \<longrightarrow> verify (Some lldp) = Inr ())"
proof -
  have a: "verify (Some lldp) = Inl (ConfigError ''SNMP must be configured to enable LLDP SNMP'') \<Longrightarrow>
      (\<exists>ls. location lldp = RetList ls \<and> verify_locations ls = Inr ()) \<and>
      snmp (options lldp) \<and> sys_snmp (options lldp) = Some False"
    using verify_locations_not_snmp
    by (auto simp add: verify_def split: loc_result.splits sum.splits option.splits if_splits)
  have b: "location lldp = RetList ls \<Longrightarrow> verify_locations ls = Inr () \<Longrightarrow>
      verify (Some lldp) =
        (if snmp (options lldp) then
           (case sys_snmp (options lldp) of
              None \<Rightarrow> Inl KeyError
            | Some x \<Rightarrow> if \<not> x then Inl (ConfigError ''SNMP must be configured to enable LLDP SNMP'')
                        else Inr ())
         else Inr ())" for ls
    by (simp add: verify_def)
  from a b show ?thesis by (auto split: option.splits)
qed

theorem verify_snmp_rule_witness:
  "location (model_snmp_with False [loc_elin ''0123456789'']) = RetList [loc_elin ''0123456789''] \<and>
   verify_locations [loc_elin ''0123456789''] = Inr () \<and>
   verify (Some (model_snmp_with False [loc_elin ''0123456789''])) =
     Inl (ConfigError ''SNMP must be configured to enable LLDP SNMP'') \<and>
   verify (Some (model_snmp_with True [loc_elin ''0123456789''])) = Inr () \<and>
   verify (Some (model_of [loc_elin ''0123456789''])) = Inr ()"
  using verify_snmp_rule [of "model_snmp_with False [loc_elin ''0123456789'']"]
    verify_snmp_rule [of "model_snmp_with True [loc_elin ''0123456789'']"]
    verify_snmp_rule [of "model_of [loc_elin ''0123456789'']"]
    verify_locations_elin_ok
  by (simp add: model_snmp_with_def model_of_def plain_options_def)

subsection \<open>Generation\<close>

lemma render_lldp_tmpl_plain:
  \<open>\<not> snmp opts \<Longrightarrow> \<not> truthy (addr opts) \<Longrightarrow> \<not> cdp opts \<Longrightarrow> \<not> edp opts \<Longrightarrow> \<not> fdp opts \<Longrightarrow>
     \<not> sonmp opts \<Longrightarrow>
     render (Template lldp_tmpl) opts =
       ''\<newline>### Autogenerated by lldp.py ###\<newline>DAEMON_ARGS="-M4"\<newline>''\<close>
  by (simp add: Template_def lldp_tmpl_def)

lemma render_vyos_tmpl:
  \<open>render (Template vyos_tmpl) opts =
     ''\<newline>### Autogenerated by lldp.py ###\<newline>\<newline>configure system platform VyOS\<newline>'' @
     ''configure system description "VyOS '' @ description opts @ ''"\<newline>'' @
     (if listen_on opts \<noteq> []
      then ''\<newline>configure system interface pattern "'' @ join '','' (listen_on opts) @ ''"\<newline>''
      else []) @ ''\<newline>''\<close>
  by (simp add: Template_def vyos_tmpl_def)

lemma py_split_version: "py_split ''Version: 1.2.0'' = [''Version:'', ''1.2.0'']"
  by (simp add: py_split_def is_space_def)

text \<open>
  C3, as stated, fails: for the model with the enabled interface \<^verbatim>\<open>eth0\<close>, the disabled
  interface \<^verbatim>\<open>eth1\<close>, SNMP off and no legacy protocol, the launch-argument file is not
  the single line \<^verbatim>\<open>DAEMON_ARGS="-M4"\<close>, with or without a final line feed: the template
  puts an empty line and the header comment before it.
\<close>

theorem generate_file1_not_single_line:
  \<open>files (snd (generate (Some model_two_intfs) world0)) config_file =
     Some ''\<newline>### Autogenerated by lldp.py ###\<newline>DAEMON_ARGS="-M4"\<newline>'' \<and>
   files (snd (generate (Some model_two_intfs) world0)) config_file \<noteq> Some ''DAEMON_ARGS="-M4"'' \<and>
   files (snd (generate (Some model_two_intfs) world0)) config_file \<noteq>
     Some ''DAEMON_ARGS="-M4"\<newline>''\<close>
  by (simp add: generate_def Let_def model_two_intfs_def two_intfs_def plain_options_def world0_def
        config_file_def vyos_config_file_def py_split_def is_space_def truthy_def
        Template_def lldp_tmpl_def vyos_tmpl_def)

text \<open>
  C3, amended. For a model with exactly the enabled interface \<^verbatim>\<open>eth0\<close> and the disabled
  interface \<^verbatim>\<open>eth1\<close>, SNMP off, no management address, all four legacy-protocol flags
  false and an empty \<^verbatim>\<open>listen_on\<close> list, on a system whose version file has at least two
  words, \<^verbatim>\<open>generate\<close> returns normally and writes, as the launch-argument file, an empty
  line, the header comment and the line \<^verbatim>\<open>DAEMON_ARGS="-M4"\<close>, and, as the daemon
  configuration file, the header, the platform line, the description line with the
  second word of the version file, and the interface-pattern line
  \<^verbatim>\<open>configure system interface pattern "eth0,!eth1"\<close>. No command is issued.
\<close>

theorem generate_two_intfs:
  \<open>interface_list lldp = two_intfs \<Longrightarrow>
   \<not> snmp (options lldp) \<Longrightarrow> \<not> truthy (addr (options lldp)) \<Longrightarrow>
   \<not> cdp (options lldp) \<Longrightarrow> \<not> edp (options lldp) \<Longrightarrow> \<not> fdp (options lldp) \<Longrightarrow>
   \<not> sonmp (options lldp) \<Longrightarrow> listen_on (options lldp) = [] \<Longrightarrow>
   files w ''/opt/vyatta/etc/version'' = Some v \<Longrightarrow> 2 \<le> length (py_split v) \<Longrightarrow>
     fst (generate (Some lldp) w) =
       Inr (Some (lldp\<lparr>options := (options lldp)\<lparr>description := py_split v ! 1,
                                                  listen_on := [''eth0'', ''!eth1'']\<rparr>\<rparr>)) \<and>
     files (snd (generate (Some lldp) w)) config_file =
       Some ''\<newline>### Autogenerated by lldp.py ###\<newline>DAEMON_ARGS="-M4"\<newline>'' \<and>
     files (snd (generate (Some lldp) w)) vyos_config_file =
       Some (''\<newline>### Autogenerated by lldp.py ###\<newline>\<newline>configure system platform VyOS\<newline>'' @
             ''configure system description "VyOS '' @ py_split v ! 1 @ ''"\<newline>'' @
             ''\<newline>configure system interface pattern "eth0,!eth1"\<newline>\<newline>'') \<and>
     cmds (snd (generate (Some lldp) w)) = cmds w\<close>
  by (simp add: generate_def Let_def two_intfs_def render_lldp_tmpl_plain render_vyos_tmpl
        config_file_def vyos_config_file_def)

theorem generate_two_intfs_witness:
  \<open>interface_list model_two_intfs = two_intfs \<and>
   \<not> snmp (options model_two_intfs) \<and> \<not> truthy (addr (options model_two_intfs)) \<and>
   \<not> cdp (options model_two_intfs) \<and> \<not> edp (options model_two_intfs) \<and>
   \<not> fdp (options model_two_intfs) \<and> \<not> sonmp (options model_two_intfs) \<and>
   listen_on (options model_two_intfs) = [] \<and>
   files world0 ''/opt/vyatta/etc/version'' = Some ''Version: 1.2.0'' \<and>
   2 \<le> length (py_split ''Version: 1.2.0'') \<and>
   files (snd (generate (Some model_two_intfs) world0)) config_file =
     Some ''\<newline>### Autogenerated by lldp.py ###\<newline>DAEMON_ARGS="-M4"\<newline>'' \<and>
   files (snd (generate (Some model_two_intfs) world0)) vyos_config_file =
     Some (''\<newline>### Autogenerated by lldp.py ###\<newline>\<newline>configure system platform VyOS\<newline>'' @
           ''configure system description "VyOS 1.2.0"\<newline>'' @
           ''\<newline>configure system interface pattern "eth0,!eth1"\<newline>\<newline>'')\<close>
  using generate_two_intfs [of model_two_intfs world0 "''Version: 1.2.0''"]
  by (simp add: model_two_intfs_def plain_options_def world0_def truthy_def py_split_version
        config_file_def vyos_config_file_def)

subsection \<open>Parsing integers\<close>

text \<open>
  A non-empty string of digits parses to its decimal value, and a string that parses
  has only digits, underscores, signs and the white space that \<^verbatim>\<open>int\<close> ignores.
\<close>

lemma py_digits_digits:
  "list_all is_digit ds \<Longrightarrow> py_digits ds acc = Some (foldl (\<lambda>a c. 10 * a + digit_val c) acc ds)"
  by (induction ds arbitrary: acc) simp_all

lemma int_strip_digits: "ds \<noteq> [] \<Longrightarrow> list_all is_digit ds \<Longrightarrow> int_strip ds = ds"
proof -
  assume n: "ds \<noteq> []" and d: "list_all is_digit ds"
  have ns: "is_digit c \<Longrightarrow> \<not> is_int_space c" for c
    by (auto simp add: is_digit_def is_int_space_def)
  from n d have "\<not> is_int_space (hd ds)" "\<not> is_int_space (last ds)"
    by (auto simp add: list_all_iff ns)
  with n have "dropWhile is_int_space ds = ds" "dropWhile is_int_space (rev ds) = rev ds"
    by (simp_all add: dropWhile_eq_self_iff hd_rev)
  then show ?thesis by (simp add: int_strip_def)
qed

lemma py_int_digits:
  "ds \<noteq> [] \<Longrightarrow> list_all is_digit ds \<Longrightarrow>
     py_int ds = Some (foldl (\<lambda>a c. 10 * a + digit_val c) 0 ds)"
proof -
  assume n: "ds \<noteq> []" and d: "list_all is_digit ds"
  then obtain c cs where ds: "ds = c # cs" by (cases ds) auto
  with d have c: "is_digit c" "list_all is_digit cs" by simp_all
  then have "c \<noteq> CHR ''-''" "c \<noteq> CHR ''+''" by (auto simp add: is_digit_def)
  with c ds show ?thesis
    using int_strip_digits [OF n d]
    by (simp add: py_int_def py_unsigned_def py_digits_digits)
qed

lemma py_digits_chars:
  "py_digits cs acc = Some k \<Longrightarrow> \<forall>c\<in>set cs. is_digit c \<or> c = CHR ''_''"
  by (induction cs acc rule: py_digits.induct) (auto split: if_splits list.splits)

lemma py_unsigned_chars:
  "py_unsigned cs = Some k \<Longrightarrow> \<forall>c\<in>set cs. is_digit c \<or> c = CHR ''_''"
  using py_digits_chars by (auto simp add: py_unsigned_def split: list.splits if_splits)

lemma int_strip_chars:
  "c \<in> set s \<Longrightarrow> c \<in> set (int_strip s) \<or> is_int_space c"
proof -
  assume c: "c \<in> set s"
  have s1: "s = takeWhile is_int_space s @ dropWhile is_int_space s" by simp
  let ?t = "dropWhile is_int_space s"
  have s2: "rev ?t = takeWhile is_int_space (rev ?t) @ dropWhile is_int_space (rev ?t)" by simp
  from c s1 have "c \<in> set (takeWhile is_int_space s) \<or> c \<in> set ?t"
    by (metis Un_iff set_append)
  moreover have "c \<in> set ?t \<Longrightarrow> c \<in> set (takeWhile is_int_space (rev ?t)) \<or> c \<in> set (int_strip s)"
  proof -
    assume "c \<in> set ?t"
    then have "c \<in> set (rev ?t)" by simp
    with s2 have "c \<in> set (takeWhile is_int_space (rev ?t)) \<or> c \<in> set (dropWhile is_int_space (rev ?t))"
      by (metis Un_iff set_append)
    then show ?thesis by (simp add: int_strip_def)
  qed
  ultimately show ?thesis by (auto dest: set_takeWhileD)
qed

lemma py_int_chars:
  assumes "py_int s = Some k"
  shows "\<forall>c\<in>set s. is_digit c \<or> c = CHR ''_'' \<or> c = CHR ''-'' \<or> c = CHR ''+'' \<or> is_int_space c"
proof
  fix c assume "c \<in> set s"
  then have "c \<in> set (int_strip s) \<or> is_int_space c" by (rule int_strip_chars)
  moreover have "\<forall>c\<in>set (int_strip s). is_digit c \<or> c = CHR ''_'' \<or> c = CHR ''-'' \<or> c = CHR ''+''"
    using assms
    by (auto simp add: py_int_def split: list.splits if_splits dest!: py_unsigned_chars)
  ultimately show "is_digit c \<or> c = CHR ''_'' \<or> c = CHR ''-'' \<or> c = CHR ''+'' \<or> is_int_space c"
    by blast
qed

lemma py_int_examples:
  "py_int ''x1'' = None" "py_int ''129'' = Some 129" "py_int ''-1'' = Some (- 1)"
  "py_int ''0'' = Some 0" "py_int ''128'' = Some 128" "py_int '' 12'' = Some 12"
  "py_int (CHR 0x1F # ''12'') = None"
  by (simp_all add: py_int_def int_strip_def is_int_space_def py_unsigned_def is_digit_def digit_val_def)

lemma country_code_US: "re_match country_code_re ''US''"
  by (simp add: re_match_def country_code_re_def alpha_def eval_nat_numeral)

subsection \<open>The ca-type rule\<close>

lemma check_ca_types_append:
  "check_ca_types n (a @ b) =
     (case check_ca_types n a of Inl e \<Rightarrow> Inl e | Inr _ \<Rightarrow> check_ca_types n b)"
  by (induction a) (simp_all split: option.splits)

lemma verify_locations_append:
  "verify_locations (a @ b) =
     (case verify_locations a of Inl e \<Rightarrow> Inl e | Inr _ \<Rightarrow> verify_locations b)"
  by (induction a) (simp_all split: sum.splits)

lemma verify_at:
  "location lldp = RetList (pre @ e # post) \<Longrightarrow> verify_locations pre = Inr () \<Longrightarrow>
     verify (Some lldp) =
       (case verify_location e of
          Inl x \<Rightarrow> Inl x
        | Inr _ \<Rightarrow> verify (Some (lldp\<lparr>location := RetList post\<rparr>)))"
  by (simp add: verify_def verify_locations_append split: sum.splits)

lemma verify_location_civic:
  "civic_based l = Some c \<Longrightarrow> coordinate_based l = None \<Longrightarrow> \<not> truthy (elin l) \<Longrightarrow>
   truthy (country_code c) \<Longrightarrow> re_match country_code_re (the (country_code c)) \<Longrightarrow>
     verify_location (LocRec l) = check_ca_types (loc_name l) (ca_type c)"
  by (simp add: verify_location_def)

text \<open>A civic location with a valid country code and no ca-type entry passes.\<close>

lemma verify_location_civic_no_ca_type:
  "civic_based l = Some c \<Longrightarrow> coordinate_based l = None \<Longrightarrow> \<not> truthy (elin l) \<Longrightarrow>
   truthy (country_code c) \<Longrightarrow> re_match country_code_re (the (country_code c)) \<Longrightarrow>
   ca_type c = [] \<Longrightarrow> verify_location (LocRec l) = Inr ()"
  by (simp add: verify_location_civic)

text \<open>
  C6, as stated, fails: validation stops at the first failing check. A civic location
  whose ca-type entries are \<^verbatim>\<open>129\<close> and then \<^verbatim>\<open>x1\<close> contains an identifier that does not
  parse, and \<^verbatim>\<open>verify\<close> raises the configuration error for \<^verbatim>\<open>129\<close>, not \<^verbatim>\<open>ValueError\<close>.
\<close>

theorem ca_type_first_failure_wins:
  "py_int ''x1'' = None \<and>
   verify (Some (model_cas [''129'', ''x1''])) =
     Inl (ConfigError (''Invalid location for interface eth0:\<newline>'' @ ''ca-type must between 0-128'')) \<and>
   verify (Some (model_cas [''129'', ''x1''])) \<noteq> Inl ValueError"
  by (simp add: py_int_examples model_cas_def model_of_def plain_options_def verify_def
        verify_location_def truthy_def country_code_US)

text \<open>
  C6, amended. Take a civic location that the validator reaches (the locations before
  it pass) with no other location type and a valid country code, and the first
  ca-type entry of it that fails a check, if any (the entries before it pass). If the
  identifier of that entry does not parse as an integer, \<^verbatim>\<open>verify\<close> raises \<^verbatim>\<open>ValueError\<close>,
  which is not a configuration error. If it parses to a value below 0 or above 128,
  \<^verbatim>\<open>verify\<close> raises the configuration error \<^verbatim>\<open>ca-type must between 0-128\<close>. An entry
  whose identifier parses to a value from 0 to 128, both included, and which has a
  value is accepted: validation gives what it gives without the entry.
\<close>

theorem verify_ca_type_rule:
  "location lldp = RetList (pre @ LocRec l # post) \<Longrightarrow> verify_locations pre = Inr () \<Longrightarrow>
   civic_based l = Some c \<Longrightarrow> coordinate_based l = None \<Longrightarrow> \<not> truthy (elin l) \<Longrightarrow>
   truthy (country_code c) \<Longrightarrow> re_match country_code_re (the (country_code c)) \<Longrightarrow>
   ca_type c = cpre @ ct # cpost \<Longrightarrow> check_ca_types (loc_name l) cpre = Inr () \<Longrightarrow>
     (py_int (ca_name ct) = None \<longrightarrow> verify (Some lldp) = Inl ValueError) \<and>
     (\<forall>k. py_int (ca_name ct) = Some k \<and> (k < 0 \<or> 128 < k) \<longrightarrow>
          verify (Some lldp) =
            Inl (ConfigError (''Invalid location for interface '' @ loc_name l @ '':\<newline>'' @
                              ''ca-type must between 0-128''))) \<and>
     (\<forall>k. py_int (ca_name ct) = Some k \<and> 0 \<le> k \<and> k \<le> 128 \<and> truthy (ca_val ct) \<longrightarrow>
          verify (Some lldp) =
            verify (Some (lldp\<lparr>location :=
              RetList (pre @ LocRec (l\<lparr>civic_based := Some (c\<lparr>ca_type := cpre @ cpost\<rparr>)\<rparr>) # post)\<rparr>)))"
proof -
  assume loc: "location lldp = RetList (pre @ LocRec l # post)"
    and pre: "verify_locations pre = Inr ()"
    and l: "civic_based l = Some c" "coordinate_based l = None" "\<not> truthy (elin l)"
    and cc: "truthy (country_code c)" "re_match country_code_re (the (country_code c))"
    and ca: "ca_type c = cpre @ ct # cpost"
    and cpre: "check_ca_types (loc_name l) cpre = Inr ()"
  have here: "verify_location (LocRec l) = check_ca_types (loc_name l) (ct # cpost)"
    using verify_location_civic [OF l cc] ca cpre by (simp add: check_ca_types_append)
  let ?l' = "l\<lparr>civic_based := Some (c\<lparr>ca_type := cpre @ cpost\<rparr>)\<rparr>"
  let ?m' = "lldp\<lparr>location := RetList (pre @ LocRec ?l' # post)\<rparr>"
  have there: "verify_location (LocRec ?l') = check_ca_types (loc_name l) cpost"
    using verify_location_civic [of ?l' "c\<lparr>ca_type := cpre @ cpost\<rparr>"] l cc cpre
    by (simp add: check_ca_types_append)
  have v: "verify (Some lldp) =
      (case check_ca_types (loc_name l) (ct # cpost) of
         Inl x \<Rightarrow> Inl x
       | Inr _ \<Rightarrow> verify (Some (lldp\<lparr>location := RetList post\<rparr>)))"
    using verify_at [OF loc pre] here by simp
  have v': "verify (Some ?m') =
      (case check_ca_types (loc_name l) cpost of
         Inl x \<Rightarrow> Inl x
       | Inr _ \<Rightarrow> verify (Some (lldp\<lparr>location := RetList post\<rparr>)))"
    using verify_at [of ?m' pre "LocRec ?l'" post] pre there by (simp cong: sum.case_cong)
  have a: "py_int (ca_name ct) = None \<longrightarrow> verify (Some lldp) = Inl ValueError"
    by (simp add: v)
  have b: "\<forall>k. py_int (ca_name ct) = Some k \<and> (k < 0 \<or> 128 < k) \<longrightarrow>
          verify (Some lldp) =
            Inl (ConfigError (''Invalid location for interface '' @ loc_name l @ '':\<newline>'' @
                              ''ca-type must between 0-128''))"
    by (auto simp add: v)
  have d: "\<forall>k. py_int (ca_name ct) = Some k \<and> 0 \<le> k \<and> k \<le> 128 \<and> truthy (ca_val ct) \<longrightarrow>
          verify (Some lldp) = verify (Some ?m')"
    by (auto simp add: v v')
  from a b d show ?thesis by blast
qed

theorem verify_ca_type_rule_witness:
  "verify (Some (model_ca ''x1'')) = Inl ValueError \<and>
   verify (Some (model_ca ''129'')) =
     Inl (ConfigError (''Invalid location for interface eth0:\<newline>'' @ ''ca-type must between 0-128'')) \<and>
   verify (Some (model_ca ''-1'')) =
     Inl (ConfigError (''Invalid location for interface eth0:\<newline>'' @ ''ca-type must between 0-128'')) \<and>
   verify (Some (model_ca ''0'')) = Inr () \<and>
   verify (Some (model_ca ''128'')) = Inr () \<and>
   verify (Some (model_ca '' 12'')) = Inr () \<and>
   verify (Some (model_ca (CHR 0x1F # ''12''))) = Inl ValueError"
proof -
  have w: "verify (Some (model_of [LocRec \<lparr>loc_name = ''eth0'',
                civic_based = Some \<lparr>country_code = Some ''US'', ca_type = []\<rparr>,
                elin = None, coordinate_based = None\<rparr>])) = Inr ()"
    by (simp add: verify_def model_of_def verify_location_def plain_options_def truthy_def
          country_code_US)
  have r: "verify (Some (model_ca n)) = Inl ValueError \<or> py_int n \<noteq> None" 
     "\<forall>k. py_int n = Some k \<and> (k < 0 \<or> 128 < k) \<longrightarrow>
          verify (Some (model_ca n)) =
            Inl (ConfigError (''Invalid location for interface eth0:\<newline>'' @ ''ca-type must between 0-128''))"
     "\<forall>k. py_int n = Some k \<and> 0 \<le> k \<and> k \<le> 128 \<longrightarrow> verify (Some (model_ca n)) = Inr ()" for n
    using verify_ca_type_rule [of "model_ca n" "[]" 
        "\<lparr>loc_name = ''eth0'',
                civic_based = Some \<lparr>country_code = Some ''US'',
                                     ca_type = [\<lparr>ca_name = n, ca_val = Some ''Main Street''\<rparr>]\<rparr>,
                elin = None, coordinate_based = None\<rparr>" "[]"
        "\<lparr>country_code = Some ''US'', ca_type = [\<lparr>ca_name = n, ca_val = Some ''Main Street''\<rparr>]\<rparr>"
        "[]" "\<lparr>ca_name = n, ca_val = Some ''Main Street''\<rparr>" "[]"] w
    by (auto simp add: model_ca_def model_of_def truthy_def country_code_US)
  from r(1) [of "''x1''"] r(2) [of "''129''"] r(2) [of "''-1''"] r(3) [of "''0''"] r(3) [of "''128''"]
    r(3) [of "'' 12''"] r(1) [of "CHR 0x1F # ''12''"]
  show ?thesis by (simp add: py_int_examples)
qed

subsection \<open>Matching by derivatives agrees with the words of a pattern\<close>

lemma conc_iff: "w \<in> conc A B \<longleftrightarrow> (\<exists>u v. w = u @ v \<and> u \<in> A \<and> v \<in> B)"
  by (auto simp add: conc_def)

lemma nullable_lang: "nullable r \<longleftrightarrow> [] \<in> lang r"
  by (induction r) (auto simp add: conc_iff intro: star_empty)

lemma Cons_in_conc:
  "c # w \<in> conc A B \<longleftrightarrow>
     (\<exists>u v. w = u @ v \<and> c # u \<in> A \<and> v \<in> B) \<or> ([] \<in> A \<and> c # w \<in> B)"
proof
  assume "c # w \<in> conc A B"
  then obtain u v where uv: "c # w = u @ v" "u \<in> A" "v \<in> B"
    by (auto simp add: conc_iff)
  show "(\<exists>u v. w = u @ v \<and> c # u \<in> A \<and> v \<in> B) \<or> ([] \<in> A \<and> c # w \<in> B)"
  proof (cases u)
    case Nil
    with uv show ?thesis by simp
  next
    case (Cons a u')
    with uv have "w = u' @ v" "c # u' \<in> A" by simp_all
    with uv show ?thesis by blast
  qed
next
  assume "(\<exists>u v. w = u @ v \<and> c # u \<in> A \<and> v \<in> B) \<or> ([] \<in> A \<and> c # w \<in> B)"
  then show "c # w \<in> conc A B"
  proof
    assume "\<exists>u v. w = u @ v \<and> c # u \<in> A \<and> v \<in> B"
    then obtain u v where "w = u @ v" "c # u \<in> A" "v \<in> B" by blast
    then have "c # w = (c # u) @ v \<and> c # u \<in> A \<and> v \<in> B" by simp
    then show ?thesis unfolding conc_iff by blast
  next
    assume "[] \<in> A \<and> c # w \<in> B"
    then have "c # w = [] @ (c # w) \<and> [] \<in> A \<and> c # w \<in> B" by simp
    then show ?thesis unfolding conc_iff by blast
  qed
qed

lemma Cons_in_star_split:
  "x \<in> star A \<Longrightarrow> x = c # w \<Longrightarrow> \<exists>u v. w = u @ v \<and> c # u \<in> A \<and> v \<in> star A"
proof (induction arbitrary: w rule: star.induct)
  case star_empty
  then show ?case by simp
next
  case (star_more u v)
  show ?case
  proof (cases u)
    case Nil
    with star_more show ?thesis by simp
  next
    case (Cons a u')
    with star_more.prems have "w = u' @ v" "a = c" by simp_all
    with Cons star_more.hyps show ?thesis by blast
  qed
qed

lemma Cons_in_star:
  "c # w \<in> star A \<longleftrightarrow> (\<exists>u v. w = u @ v \<and> c # u \<in> A \<and> v \<in> star A)"
proof
  assume "c # w \<in> star A"
  then show "\<exists>u v. w = u @ v \<and> c # u \<in> A \<and> v \<in> star A"
    using Cons_in_star_split by blast
next
  assume "\<exists>u v. w = u @ v \<and> c # u \<in> A \<and> v \<in> star A"
  then obtain u v where "w = u @ v" "c # u \<in> A" "v \<in> star A" by blast
  then show "c # w \<in> star A"
    using star_more [of "c # u" A v] by simp
qed

lemma deriv_lang: "w \<in> lang (deriv c r) \<longleftrightarrow> c # w \<in> lang r"
proof (induction r arbitrary: w)
  case (Cat r1 r2)
  then show ?case
    by (simp add: Cons_in_conc nullable_lang) (auto simp add: conc_iff)
next
  case (Star r)
  then show ?case
    by (simp add: Cons_in_star) (auto simp add: conc_iff)
qed auto

lemma matches_lang: "matches w r \<longleftrightarrow> w \<in> lang r"
  by (induction w arbitrary: r) (simp_all add: nullable_lang deriv_lang)

lemma is_digit_set: "list_all is_digit s \<longleftrightarrow> set s \<subseteq> set ''0123456789''"
  unfolding list_all_iff is_digit_def by blast


lemma cls_conc: "w \<in> conc {[c] | c. c \<in> C} B \<longleftrightarrow> (\<exists>c t. w = c # t \<and> c \<in> C \<and> t \<in> B)"
proof
  assume "w \<in> conc {[c] | c. c \<in> C} B"
  then show "\<exists>c t. w = c # t \<and> c \<in> C \<and> t \<in> B"
    by (auto simp add: conc_iff)
next
  assume "\<exists>c t. w = c # t \<and> c \<in> C \<and> t \<in> B"
  then obtain c t where "w = c # t" "c \<in> C" "t \<in> B" by blast
  then have "w = [c] @ t \<and> [c] \<in> {[c] | c. c \<in> C} \<and> t \<in> B" by simp
  then show "w \<in> conc {[c] | c. c \<in> C} B"
    unfolding conc_iff by blast
qed


lemma lang_Opt: "w \<in> lang (Opt r) \<longleftrightarrow> w = [] \<or> w \<in> lang r"
  by (auto simp add: Opt_def)

lemma lang_Rep_Cls: "w \<in> lang (Rep n (Cls cs)) \<longleftrightarrow> length w = n \<and> set w \<subseteq> set cs"
proof (induction n arbitrary: w)
  case 0
  show ?case by auto
next
  case (Suc n)
  show ?case
    by (cases w) (auto simp add: cls_conc Suc)
qed

lemma lang_Upto_Cls: "w \<in> lang (Upto n (Cls cs)) \<longleftrightarrow> length w \<le> n \<and> set w \<subseteq> set cs"
proof (induction n arbitrary: w)
  case 0
  show ?case by auto
next
  case (Suc n)
  show ?case
    by (cases w) (auto simp add: lang_Opt cls_conc Suc)
qed

lemma lang_Range_Cls:
  assumes "m \<le> n"
  shows "w \<in> lang (Range m n (Cls cs)) \<longleftrightarrow> m \<le> length w \<and> length w \<le> n \<and> set w \<subseteq> set cs"
proof
  assume "w \<in> lang (Range m n (Cls cs))"
  then obtain u v where "w = u @ v" "length u = m" "set u \<subseteq> set cs" "length v \<le> n - m"
      "set v \<subseteq> set cs"
    by (auto simp add: Range_def conc_iff lang_Rep_Cls lang_Upto_Cls)
  with assms show "m \<le> length w \<and> length w \<le> n \<and> set w \<subseteq> set cs" by auto
next
  assume h: "m \<le> length w \<and> length w \<le> n \<and> set w \<subseteq> set cs"
  let ?u = "take m w" and ?v = "drop m w"
  have "w = ?u @ ?v" by simp
  moreover have "?u \<in> lang (Rep m (Cls cs))"
    using h by (auto simp add: lang_Rep_Cls dest: in_set_takeD)
  moreover have "?v \<in> lang (Upto (n - m) (Cls cs))"
    using h by (auto simp add: lang_Upto_Cls dest: in_set_dropD)
  ultimately show "w \<in> lang (Range m n (Cls cs))"
    unfolding Range_def lang.simps conc_iff by blast
qed

lemma matches_elin: "matches w elin_re \<longleftrightarrow> digits_10_to_25 w"
  by (simp add: matches_lang elin_re_def digit_def lang_Range_Cls digits_10_to_25_def is_digit_set)

lemma re_match_elin: "re_match elin_re w \<longleftrightarrow> or_line_feed digits_10_to_25 w"
  by (simp add: re_match_def or_line_feed_def matches_elin)






subsection \<open>The ELIN rule\<close>

lemma verify_location_elin:
  "civic_based l = None \<Longrightarrow> coordinate_based l = None \<Longrightarrow> elin l = Some e \<Longrightarrow> e \<noteq> [] \<Longrightarrow>
     verify_location (LocRec l) =
       (if or_line_feed digits_10_to_25 e then Inr ()
        else Inl (ConfigError (''Invalid location for interface '' @ loc_name l @ '':\<newline>'' @
                               ''ELIN number must be between 10-25 numbers'')))"
  by (simp add: verify_location_def truthy_def re_match_elin)

text \<open>
  C8. The specification says that an ELIN value is accepted exactly when it is a
  string of 10 to 25 decimal digits, and the message of the check,
  \<^verbatim>\<open>ELIN number must be between 10-25 numbers\<close>, says the same. Ten digits followed by a
  line feed are not such a string, and \<^verbatim>\<open>verify\<close> accepts them: the pattern ends with
  \<^verbatim>\<open>$\<close>, which also holds just before a final line feed.
\<close>

theorem elin_line_feed_accepted:
  "verify (Some (model_elin ''0123456789\<newline>'')) = Inr () \<and> \<not> digits_10_to_25 ''0123456789\<newline>''"
  by (simp add: verify_def model_elin_def model_of_def plain_options_def verify_location_def
        truthy_def re_match_def elin_re_def Range_def digit_def Opt_def eval_nat_numeral
        digits_10_to_25_def is_digit_def)

text \<open>
  What the check does on every ELIN location that the validator reaches, with empty
  civic and coordinate data and a non-empty value: the value is accepted exactly when
  it is a string of 10 to 25 decimal digits, optionally followed by one line feed. So
  9 digits are rejected, 10 and 25 digits are accepted, 26 digits are rejected.
\<close>

lemma verify_elin_rule:
  "location lldp = RetList (pre @ LocRec l # post) \<Longrightarrow> verify_locations pre = Inr () \<Longrightarrow>
   civic_based l = None \<Longrightarrow> coordinate_based l = None \<Longrightarrow> elin l = Some e \<Longrightarrow> e \<noteq> [] \<Longrightarrow>
     (verify_location (LocRec l) = Inr ()) = or_line_feed digits_10_to_25 e \<and>
     verify (Some lldp) =
       (if or_line_feed digits_10_to_25 e then verify (Some (lldp\<lparr>location := RetList post\<rparr>))
        else Inl (ConfigError (''Invalid location for interface '' @ loc_name l @ '':\<newline>'' @
                               ''ELIN number must be between 10-25 numbers'')))"
  by (simp add: verify_at verify_location_elin)

lemma verify_elin_examples:
  "verify (Some (model_elin ''012345678'')) =
     Inl (ConfigError (''Invalid location for interface eth0:\<newline>'' @
                       ''ELIN number must be between 10-25 numbers'')) \<and>
   verify (Some (model_elin ''0123456789'')) = Inr () \<and>
   verify (Some (model_elin ''0123456789012345678901234'')) = Inr () \<and>
   verify (Some (model_elin ''01234567890123456789012345'')) =
     Inl (ConfigError (''Invalid location for interface eth0:\<newline>'' @
                       ''ELIN number must be between 10-25 numbers'')) \<and>
   verify (Some (model_elin ''0123456789\<newline>'')) = Inr ()"
proof -
  have r: "e \<noteq> [] \<Longrightarrow> verify (Some (model_elin e)) =
       (if or_line_feed digits_10_to_25 e then Inr ()
        else Inl (ConfigError (''Invalid location for interface eth0:\<newline>'' @
                               ''ELIN number must be between 10-25 numbers'')))" for e
    using verify_elin_rule [of "model_elin e" "[]"
        "\<lparr>loc_name = ''eth0'', civic_based = None, elin = Some e, coordinate_based = None\<rparr>"
        "[]" e]
    by (simp add: model_elin_def model_of_def plain_options_def verify_def)
  show ?thesis
    by (simp add: r or_line_feed_def digits_10_to_25_def is_digit_def)
qed

subsection \<open>The coordinate rule\<close>





end
